theory Spec2Isabelle
  imports Complex_Main
begin

section \<open>Single-precision values\<close>

text \<open>
  The header \<^verbatim>\<open>models/demo_test_vectors.h\<close> declares arrays of C \<^verbatim>\<open>float\<close>. A
  \<^verbatim>\<open>float\<close> is an IEEE 754 binary32 datum: one sign bit, eight bits of biased exponent
  and twenty-three bits of fraction. The three fields are kept apart; a well-formed value
  has its exponent in \<open>0..255\<close> and its fraction in \<open>0..2^23 - 1\<close>.
\<close>

datatype float32 = Float32 (sign_bit: bool) (biased_exp: int) (fraction: int)

definition float32_wf :: "float32 \<Rightarrow> bool" where
  "float32_wf x =
     (0 \<le> biased_exp x \<and> biased_exp x \<le> 255 \<and> 0 \<le> fraction x \<and> fraction x < 2 ^ 23)"

definition is_nan :: "float32 \<Rightarrow> bool" where
  "is_nan x = (biased_exp x = 255 \<and> fraction x \<noteq> 0)"

definition is_infinite :: "float32 \<Rightarrow> bool" where
  "is_infinite x = (biased_exp x = 255 \<and> fraction x = 0)"

definition is_finite :: "float32 \<Rightarrow> bool" where
  "is_finite x = (biased_exp x < 255)"

definition is_zero :: "float32 \<Rightarrow> bool" where
  "is_zero x = (biased_exp x = 0 \<and> fraction x = 0)"

definition pow2 :: "int \<Rightarrow> rat" where
  "pow2 k = (if 0 \<le> k then 2 ^ nat k else 1 / 2 ^ nat (- k))"

text \<open>
  The number a finite datum stands for: \<open>\<plusminus> f \<sqdot> 2^-149\<close> for a subnormal (exponent
  field 0), \<open>\<plusminus> (2^23 + f) \<sqdot> 2^(e - 150)\<close> otherwise. It is meaningful only where
  \<open>is_finite\<close> holds; every statement below that uses it says so.
\<close>

definition float_value :: "float32 \<Rightarrow> rat" where
  "float_value x =
     (if sign_bit x then - 1 else 1) *
     (if biased_exp x = 0 then of_int (fraction x) * pow2 (- 149)
      else of_int (2 ^ 23 + fraction x) * pow2 (biased_exp x - 150))"

text \<open>
  C's \<^verbatim>\<open>==\<close> on floats: a NaN equals nothing, the two zeros are equal, and any other two
  data are equal exactly when their bits are.
\<close>

definition float_eq :: "float32 \<Rightarrow> float32 \<Rightarrow> bool" where
  "float_eq x y =
     (if is_nan x \<or> is_nan y then False
      else if is_zero x \<and> is_zero y then True
      else x = y)"

subsection \<open>Decimal literals\<close>

text \<open>
  A literal with the suffix \<^verbatim>\<open>f\<close>, such as \<^verbatim>\<open>0.14671369f\<close>, denotes the binary32 datum
  nearest to the decimal number written, ties going to the even fraction (the conversion
  of GCC and Clang). A leading \<^verbatim>\<open>-\<close> negates that datum, which flips its sign bit;
  rounding to nearest is symmetric, so \<open>float_lit\<close> takes the signed decimal.
\<close>

function ilog2 :: "int \<Rightarrow> int" where
  "ilog2 n = (if n < 2 then 0 else 1 + ilog2 (n div 2))"
  by pat_completeness auto
termination
  by (relation "measure nat") auto

declare ilog2.simps [simp del]

definition binary_exponent :: "rat \<Rightarrow> int" where
  "binary_exponent a =
     (let (n, d) = quotient_of a;
          k = ilog2 n - ilog2 d
      in if pow2 k \<le> a then k else k - 1)"

definition round_half_even :: "rat \<Rightarrow> int" where
  "round_half_even x =
     (let f = \<lfloor>x\<rfloor>; r = x - of_int f
      in if r < 1 / 2 then f
         else if 1 / 2 < r then f + 1
         else if even f then f else f + 1)"

definition float_lit :: "rat \<Rightarrow> float32" where
  "float_lit q =
     (let s = (q < 0); a = \<bar>q\<bar>
      in if a = 0 then Float32 s 0 0
         else
           let e = max (binary_exponent a) (- 126);
               m = round_half_even (a * pow2 (23 - e));
               e' = (if 2 ^ 24 \<le> m then e + 1 else e);
               m' = (if 2 ^ 24 \<le> m then 2 ^ 23 else m)
           in if 127 < e' then Float32 s 255 0
              else if m' < 2 ^ 23 then Float32 s 0 m'
              else Float32 s (e' + 127) (m' - 2 ^ 23))"

text \<open>
  \<^verbatim>\<open>static const float a[n] = { c1, ..., ck };\<close> with \<open>k \<le> n\<close> is an array of \<open>n\<close>
  floats: the initialisers in order, then positive zeros for the elements left without
  one. (With \<open>k > n\<close> the declaration does not compile; the list is then left as
  written, so that its length differs from \<open>n\<close>.)
\<close>

definition float_array :: "nat \<Rightarrow> rat list \<Rightarrow> float32 list" where
  "float_array n inits =
     map float_lit inits @ replicate (n - length inits) (Float32 False 0 0)"

section \<open>The header\<close>

definition DEMO_N_TEST_VECTORS :: int where
  "DEMO_N_TEST_VECTORS = 5"

definition demo_test_input_0 :: "float32 list" where
  "demo_test_input_0 = float_array 10
     [-0.16711809,  0.14671369,  1.20650899, -0.81693566,  0.36867329, -0.39333880,  0.02874482,  1.27845192,
       0.19109906,  0.04643655]"

definition demo_test_input_1 :: "float32 list" where
  "demo_test_input_1 = float_array 10
     [-1.35985613,  0.74625355,  0.64548421,  2.16325474, -0.30777824,  0.21915033,  0.24938369,  1.57745326,
      -0.09529553,  0.27902153]"

definition demo_test_input_2 :: "float32 list" where
  "demo_test_input_2 = float_array 10
     [ 0.60789651,  0.18660912, -0.44643360,  0.19408999,  1.07363176, -1.02651525,  0.13296968, -0.70012081,
       1.19504666, -1.52318692]"

definition demo_test_input_3 :: "float32 list" where
  "demo_test_input_3 = float_array 10
     [-0.55892187,  0.37721187,  1.56552398, -0.06575026, -0.55519950,  1.88115704, -1.44801390, -2.19880605,
       0.44001445, -0.50205421]"

definition demo_test_input_4 :: "float32 list" where
  "demo_test_input_4 = float_array 10
     [-1.02123284,  0.70835644,  0.24380071, -0.56407863, -1.28030443,  0.87245733,  0.65020120, -0.09917586,
       1.84663701, -1.07008481]"

text \<open>The five arrays in declaration order.\<close>

definition test_vector_table :: "float32 list list" where
  "test_vector_table =
     [demo_test_input_0, demo_test_input_1, demo_test_input_2, demo_test_input_3,
      demo_test_input_4]"

section \<open>The accessor\<close>

datatype error = OutOfRange

text \<open>
  Modelled from the spec: \<^verbatim>\<open>get_test_vector\<close>, the accessor of the lookup table. The
  header declares data only and has no function; the spec gives the accessor's contract:
  a read-only mapping from a vector index to a fixed-length immutable sequence of floats,
  which fails with OutOfRange when the index is not in \<open>[0, N_VECTORS)\<close>. The index is an
  arbitrary integer, the count is the header's \<^verbatim>\<open>DEMO_N_TEST_VECTORS\<close>, and index \<open>i\<close>
  selects the \<open>i\<close>-th array of the header.
\<close>

definition get_test_vector :: "int \<Rightarrow> error + float32 list" where
  "get_test_vector index =
     (if 0 \<le> index \<and> index < DEMO_N_TEST_VECTORS
      then Inr (test_vector_table ! nat index)
      else Inl OutOfRange)"

text \<open>
  Modelled from the spec: successive invocations of the accessor, which the header does not
  have, in a program that includes the header. The header declares each array
  \<^verbatim>\<open>static const\<close>: an object of static storage duration whose type is const-qualified,
  initialised once before the program runs. The memory below holds the five objects, each
  with its qualifier. A program acts on the memory by invoking the accessor (\<open>Read index\<close>)
  or by an assignment to an element of one of the arrays (\<open>Assign k pos x\<close> for
  \<^verbatim>\<open>demo_test_input_k[pos] = x\<close>). C demands a modifiable lvalue on the left of an
  assignment, so an assignment to an element of a const-qualified array is refused and
  stores nothing; to an array without the qualifier it stores the value. An assignment that
  names no array or no element of it is refused as well. (A store through a pointer that
  casts the qualifier away has undefined behaviour and is not an operation of the model.)
\<close>

record static_object =
  const_qualified :: bool
  elements :: "float32 list"

type_synonym memory = "static_object list"

definition static_const :: "float32 list \<Rightarrow> static_object" where
  "static_const xs = \<lparr>const_qualified = True, elements = xs\<rparr>"

definition header_memory :: memory where
  "header_memory =
     [static_const demo_test_input_0, static_const demo_test_input_1,
      static_const demo_test_input_2, static_const demo_test_input_3,
      static_const demo_test_input_4]"

datatype operation = Read int | Assign nat nat float32

datatype outcome = Returned "error + float32 list" | Stored | NotModifiable | NoSuchElement

fun step :: "memory \<Rightarrow> operation \<Rightarrow> outcome \<times> memory" where
  "step mem (Read index) =
     (if 0 \<le> index \<and> index < DEMO_N_TEST_VECTORS
      then (Returned (Inr (elements (mem ! nat index))), mem)
      else (Returned (Inl OutOfRange), mem))"
| "step mem (Assign k pos x) =
     (if length mem \<le> k then (NoSuchElement, mem)
      else if const_qualified (mem ! k) then (NotModifiable, mem)
      else if length (elements (mem ! k)) \<le> pos then (NoSuchElement, mem)
      else (Stored, mem[k := (mem ! k)\<lparr>elements := (elements (mem ! k))[pos := x]\<rparr>]))"

fun run :: "memory \<Rightarrow> operation list \<Rightarrow> outcome list \<times> memory" where
  "run mem [] = ([], mem)"
| "run mem (op # ops) =
     (let (r, mem') = step mem op; (rs, mem'') = run mem' ops in (r # rs, mem''))"

text \<open>The same memory with the qualifier dropped from every object, for comparison.\<close>

definition without_const :: "memory \<Rightarrow> memory" where
  "without_const mem = map (\<lambda>ob. ob\<lparr>const_qualified := False\<rparr>) mem"

section \<open>The stored data, evaluated\<close>

lemma demo_test_input_0_bits:
  "demo_test_input_0 =
     [Float32 True 124 2826497, Float32 False 124 1457181, Float32 False 127 1732323,
      Float32 True 126 5317298, Float32 False 125 3982015, Float32 True 125 4809652,
      Float32 False 121 7043650, Float32 False 127 2335824, Float32 False 124 4435833,
      Float32 False 122 4076608]"
  by code_simp

lemma demo_test_input_1_bits:
  "demo_test_input_1 =
     [Float32 True 127 3018692, Float32 False 126 4131449, Float32 False 126 2440820,
      Float32 False 128 684740, Float32 True 125 1938716, Float32 False 124 6318322,
      Float32 False 124 8347248, Float32 False 127 4844029, Float32 True 123 4401742,
      Float32 False 125 973801]"
  by code_simp

lemma demo_test_input_2_bits:
  "demo_test_input_2 =
     [Float32 False 126 1810203, Float32 False 124 4134518, Float32 True 125 6591218,
      Float32 False 124 4636551, Float32 False 127 617668, Float32 True 127 222426,
      Float32 False 124 534836, Float32 True 126 3357470, Float32 False 127 1636170,
      Float32 True 127 4388810]"
  by code_simp

lemma demo_test_input_3_bits:
  "demo_test_input_3 =
     [Float32 True 126 988545, Float32 False 125 4268522, Float32 False 127 4743959,
      Float32 True 123 436243, Float32 True 126 926094, Float32 False 127 7391681,
      Float32 True 127 3758213, Float32 True 128 833853, Float32 False 125 6375827,
      Float32 True 126 34464]"
  by code_simp

lemma demo_test_input_4_bits:
  "demo_test_input_4 =
     [Float32 True 127 178114, Float32 False 126 3495641, Float32 False 124 7972581,
      Float32 True 126 1075061, Float32 True 127 2351364, Float32 False 126 6248797,
      Float32 False 126 2519958, Float32 True 123 4922551, Float32 False 127 7102106,
      Float32 True 127 587914]"
  by code_simp

lemmas demo_test_input_bits =
  demo_test_input_0_bits demo_test_input_1_bits demo_test_input_2_bits
  demo_test_input_3_bits demo_test_input_4_bits

text \<open>
  Each stored datum lies strictly within half a unit in the last place of the decimal
  written in the header, so it is the one binary32 value nearest to it.
\<close>

lemma demo_test_input_0_nearest:
  "list_all2 (\<lambda>x q. \<bar>float_value x - q\<bar> < pow2 (biased_exp x - 151)) demo_test_input_0
     [-0.16711809,  0.14671369,  1.20650899, -0.81693566,  0.36867329, -0.39333880,  0.02874482,  1.27845192,
       0.19109906,  0.04643655]"
  by (simp add: demo_test_input_0_bits float_value_def pow2_def)

lemma demo_test_input_1_nearest:
  "list_all2 (\<lambda>x q. \<bar>float_value x - q\<bar> < pow2 (biased_exp x - 151)) demo_test_input_1
     [-1.35985613,  0.74625355,  0.64548421,  2.16325474, -0.30777824,  0.21915033,  0.24938369,  1.57745326,
      -0.09529553,  0.27902153]"
  by (simp add: demo_test_input_1_bits float_value_def pow2_def)

lemma demo_test_input_2_nearest:
  "list_all2 (\<lambda>x q. \<bar>float_value x - q\<bar> < pow2 (biased_exp x - 151)) demo_test_input_2
     [ 0.60789651,  0.18660912, -0.44643360,  0.19408999,  1.07363176, -1.02651525,  0.13296968, -0.70012081,
       1.19504666, -1.52318692]"
  by (simp add: demo_test_input_2_bits float_value_def pow2_def)

lemma demo_test_input_3_nearest:
  "list_all2 (\<lambda>x q. \<bar>float_value x - q\<bar> < pow2 (biased_exp x - 151)) demo_test_input_3
     [-0.55892187,  0.37721187,  1.56552398, -0.06575026, -0.55519950,  1.88115704, -1.44801390, -2.19880605,
       0.44001445, -0.50205421]"
  by (simp add: demo_test_input_3_bits float_value_def pow2_def)

lemma demo_test_input_4_nearest:
  "list_all2 (\<lambda>x q. \<bar>float_value x - q\<bar> < pow2 (biased_exp x - 151)) demo_test_input_4
     [-1.02123284,  0.70835644,  0.24380071, -0.56407863, -1.28030443,  0.87245733,  0.65020120, -0.09917586,
       1.84663701, -1.07008481]"
  by (simp add: demo_test_input_4_bits float_value_def pow2_def)

section \<open>Facts about the accessor\<close>

lemma get_test_vector_cases:
  "get_test_vector 0 = Inr demo_test_input_0"
  "get_test_vector 1 = Inr demo_test_input_1"
  "get_test_vector 2 = Inr demo_test_input_2"
  "get_test_vector 3 = Inr demo_test_input_3"
  "get_test_vector 4 = Inr demo_test_input_4"
  by (simp_all add: get_test_vector_def DEMO_N_TEST_VECTORS_def test_vector_table_def)

lemma valid_index_cases:
  fixes i :: int
  assumes "0 \<le> i" and "i < 5"
  shows "i = 0 \<or> i = 1 \<or> i = 2 \<or> i = 3 \<or> i = 4"
  using assms by arith

lemma successful_indices: "{i. \<exists>v. get_test_vector i = Inr v} = {0..4}"
  by (auto simp add: get_test_vector_def DEMO_N_TEST_VECTORS_def)

lemma array_lengths:
  "length demo_test_input_0 = 10"
  "length demo_test_input_1 = 10"
  "length demo_test_input_2 = 10"
  "length demo_test_input_3 = 10"
  "length demo_test_input_4 = 10"
  by (simp_all add: demo_test_input_bits)

lemma all_values:
  "concat test_vector_table =
     demo_test_input_0 @ demo_test_input_1 @ demo_test_input_2 @ demo_test_input_3 @
     demo_test_input_4"
  by (simp add: test_vector_table_def)

lemma value_count: "length (concat test_vector_table) = 50"
  by (simp add: all_values array_lengths)

lemma first_elements:
  "test_vector_table ! 0 ! 0 = Float32 True 124 2826497"
  "test_vector_table ! Suc 0 ! 0 = Float32 True 127 3018692"
  "test_vector_table ! 2 ! 0 = Float32 False 126 1810203"
  "test_vector_table ! 3 ! 0 = Float32 True 126 988545"
  "test_vector_table ! 4 ! 0 = Float32 True 127 178114"
  by (simp_all add: test_vector_table_def demo_test_input_bits)

lemma header_memory_const: "list_all const_qualified header_memory"
  by (simp add: header_memory_def static_const_def)

lemma header_memory_elements:
  assumes "0 \<le> i" and "i < 5"
  shows "elements (header_memory ! nat i) = test_vector_table ! nat i"
proof -
  from assms consider "i = 0" | "i = 1" | "i = 2" | "i = 3" | "i = 4"
    using valid_index_cases by blast
  then show ?thesis
    by cases (simp_all add: header_memory_def test_vector_table_def static_const_def)
qed

lemma step_keeps_const_memory:
  assumes "list_all const_qualified mem"
  shows "snd (step mem op) = mem"
proof (cases op)
  case (Read index)
  then show ?thesis by simp
next
  case (Assign k pos x)
  have "const_qualified (mem ! k)" if "k < length mem"
    using assms that by (simp add: list_all_length)
  with Assign show ?thesis by auto
qed

lemma run_keeps_const_memory:
  assumes "list_all const_qualified mem"
  shows "snd (run mem ops) = mem"
  using assms
proof (induction ops arbitrary: mem)
  case Nil
  show ?case by simp
next
  case (Cons op ops)
  have "snd (step mem op) = mem"
    using Cons.prems by (rule step_keeps_const_memory)
  with Cons show ?case by (simp add: split_beta)
qed

lemma read_header_memory:
  assumes "0 \<le> i" and "i < 5"
  shows "step header_memory (Read i) = (Returned (get_test_vector i), header_memory)"
  using assms header_memory_elements [OF assms]
  by (simp add: get_test_vector_def DEMO_N_TEST_VECTORS_def)

text \<open>
  The qualifier is what protects the data: were the arrays declared without it, an
  assignment would be stored and the next invocation would return the changed vector.
\<close>

lemma assignment_observed_without_const:
  "fst (step (snd (run (without_const header_memory) [Assign 0 0 (Float32 False 0 0)]))
          (Read 0)) \<noteq>
   fst (step (without_const header_memory) (Read 0))"
  by (simp add: without_const_def header_memory_def static_const_def DEMO_N_TEST_VECTORS_def
      demo_test_input_0_bits)

section \<open>The properties\<close>

text \<open>
  C1. For every integer index \<open>i\<close>, \<open>get_test_vector i\<close> returns a vector exactly when
  \<open>0 \<le> i < 5\<close>, and it is the out-of-range error exactly when \<open>i\<close> is outside that
  interval: an invalid index never yields a vector.
\<close>

theorem get_test_vector_in_range_iff:
  "((\<exists>v. get_test_vector i = Inr v) \<longleftrightarrow> (0 \<le> i \<and> i < 5)) \<and>
   ((get_test_vector i = Inl OutOfRange) \<longleftrightarrow> \<not> (0 \<le> i \<and> i < 5))"
  by (simp add: get_test_vector_def DEMO_N_TEST_VECTORS_def)

theorem get_test_vector_in_range_iff_witness:
  "get_test_vector (- 1) = Inl OutOfRange \<and> get_test_vector 5 = Inl OutOfRange \<and>
   get_test_vector 100 = Inl OutOfRange \<and> (\<exists>v. get_test_vector 0 = Inr v) \<and>
   (\<exists>v. get_test_vector 4 = Inr v)"
  using get_test_vector_in_range_iff [of "- 1"] get_test_vector_in_range_iff [of 5]
    get_test_vector_in_range_iff [of 100] get_test_vector_in_range_iff [of 0]
    get_test_vector_in_range_iff [of 4]
  by simp

text \<open>
  C2. For every valid index \<open>i\<close> in \<open>[0, 5)\<close> the vector that \<open>get_test_vector i\<close> returns
  has exactly 10 elements; and each of the five declared arrays has length 10.
\<close>

theorem get_test_vector_length:
  "(0 \<le> i \<and> i < 5 \<longrightarrow> (\<exists>v. get_test_vector i = Inr v \<and> length v = 10)) \<and>
   length demo_test_input_0 = 10 \<and> length demo_test_input_1 = 10 \<and>
   length demo_test_input_2 = 10 \<and> length demo_test_input_3 = 10 \<and>
   length demo_test_input_4 = 10"
proof -
  have "\<exists>v. get_test_vector i = Inr v \<and> length v = 10" if "0 \<le> i" and "i < 5"
  proof -
    from that consider "i = 0" | "i = 1" | "i = 2" | "i = 3" | "i = 4"
      using valid_index_cases by blast
    then show ?thesis
      by cases (simp_all add: get_test_vector_cases array_lengths)
  qed
  then show ?thesis by (simp add: array_lengths)
qed

theorem get_test_vector_length_witness:
  "(0::int) \<le> 3 \<and> (3::int) < 5 \<and> (\<exists>v. get_test_vector 3 = Inr v \<and> length v = 10)"
  using get_test_vector_length [of 3] by simp

text \<open>
  C3. The count constant \<open>DEMO_N_TEST_VECTORS\<close> is 5, the header declares that many arrays,
  and the number of indices at which \<open>get_test_vector\<close> succeeds is that constant.
\<close>

theorem exposed_vector_count:
  "DEMO_N_TEST_VECTORS = 5 \<and>
   int (length test_vector_table) = DEMO_N_TEST_VECTORS \<and>
   int (card {i. \<exists>v. get_test_vector i = Inr v}) = DEMO_N_TEST_VECTORS"
  by (simp add: successful_indices DEMO_N_TEST_VECTORS_def test_vector_table_def)

text \<open>
  C4. \<open>get_test_vector 0\<close> returns a vector of 10 elements whose first element is the
  float literal \<open>-0.16711809\<close> and whose last element is the float literal \<open>0.04643655\<close>;
  each of the two stored values is within half a unit in the last place of the decimal
  number written.
\<close>

theorem get_test_vector_0_first_last:
  "\<exists>v. get_test_vector 0 = Inr v \<and> length v = 10 \<and>
     hd v = float_lit (- 0.16711809) \<and> last v = float_lit 0.04643655 \<and>
     v ! 0 = hd v \<and> v ! 9 = last v \<and>
     \<bar>float_value (hd v) - (- 0.16711809)\<bar> \<le> 1 / 2 ^ 27 \<and>
     \<bar>float_value (last v) - 0.04643655\<bar> \<le> 1 / 2 ^ 29"
proof -
  have a: "float_lit (- 0.16711809) = Float32 True 124 2826497"
    by code_simp
  have b: "float_lit 0.04643655 = Float32 False 122 4076608"
    by code_simp
  have h: "hd demo_test_input_0 = Float32 True 124 2826497"
    by (simp add: demo_test_input_0_bits)
  have l: "last demo_test_input_0 = Float32 False 122 4076608"
    by (simp add: demo_test_input_0_bits)
  have n0: "demo_test_input_0 ! 0 = Float32 True 124 2826497"
    by (simp add: demo_test_input_0_bits)
  have n9: "demo_test_input_0 ! 9 = Float32 False 122 4076608"
    by (simp add: demo_test_input_0_bits)
  have hv: "\<bar>float_value (Float32 True 124 2826497) - (- 0.16711809)\<bar> \<le> 1 / 2 ^ 27"
    by (simp add: float_value_def pow2_def)
  have lv: "\<bar>float_value (Float32 False 122 4076608) - 0.04643655\<bar> \<le> 1 / 2 ^ 29"
    by (simp add: float_value_def pow2_def)
  have "length demo_test_input_0 = 10 \<and>
     hd demo_test_input_0 = float_lit (- 0.16711809) \<and>
     last demo_test_input_0 = float_lit 0.04643655 \<and>
     demo_test_input_0 ! 0 = hd demo_test_input_0 \<and>
     demo_test_input_0 ! 9 = last demo_test_input_0 \<and>
     \<bar>float_value (hd demo_test_input_0) - (- 0.16711809)\<bar> \<le> 1 / 2 ^ 27 \<and>
     \<bar>float_value (last demo_test_input_0) - 0.04643655\<bar> \<le> 1 / 2 ^ 29"
    unfolding h l n0 n9 a b using array_lengths(1) hv lv by blast
  with get_test_vector_cases(1) show ?thesis by blast
qed

text \<open>
  C5. \<open>get_test_vector 4\<close> returns a vector whose third element (zero-based index 2) is
  the float literal \<open>0.24380071\<close>, within half a unit in the last place of that decimal.
\<close>

theorem get_test_vector_4_third:
  "\<exists>v. get_test_vector 4 = Inr v \<and> v ! 2 = float_lit 0.24380071 \<and>
     \<bar>float_value (v ! 2) - 0.24380071\<bar> \<le> 1 / 2 ^ 27"
proof -
  have a: "float_lit 0.24380071 = Float32 False 124 7972581"
    by code_simp
  have e: "demo_test_input_4 ! 2 = Float32 False 124 7972581"
    by (simp add: demo_test_input_4_bits)
  have ev: "\<bar>float_value (Float32 False 124 7972581) - 0.24380071\<bar> \<le> 1 / 2 ^ 27"
    by (simp add: float_value_def pow2_def)
  have "demo_test_input_4 ! 2 = float_lit 0.24380071 \<and>
     \<bar>float_value (demo_test_input_4 ! 2) - 0.24380071\<bar> \<le> 1 / 2 ^ 27"
    unfolding e a using ev by blast
  with get_test_vector_cases(5) show ?thesis by blast
qed

text \<open>
  C6. Each of the 50 stored values (five arrays of ten) is a finite number in the closed
  interval \<open>[-2.5, 2.5]\<close>.
\<close>

theorem values_within_bounds:
  "length (concat test_vector_table) = 50 \<and>
   (\<forall>x \<in> set (concat test_vector_table).
      is_finite x \<and> - 2.5 \<le> float_value x \<and> float_value x \<le> 2.5)"
proof -
  let ?P = "\<lambda>x. is_finite x \<and> - 2.5 \<le> float_value x \<and> float_value x \<le> 2.5"
  have "\<forall>x \<in> set v. ?P x"
    if "v = demo_test_input_0 \<or> v = demo_test_input_1 \<or> v = demo_test_input_2 \<or>
        v = demo_test_input_3 \<or> v = demo_test_input_4" for v
    using that
    by (elim disjE)
      (simp_all add: demo_test_input_bits is_finite_def float_value_def pow2_def)
  then have "\<forall>x \<in> set (concat test_vector_table). ?P x"
    unfolding all_values set_append ball_Un by blast
  with value_count show ?thesis by blast
qed

theorem values_within_bounds_witness:
  "Float32 True 128 833853 \<in> set (concat test_vector_table) \<and>
   is_finite (Float32 True 128 833853) \<and>
   - 2.5 \<le> float_value (Float32 True 128 833853) \<and>
   float_value (Float32 True 128 833853) \<le> 2.5 \<and>
   float_value (Float32 True 128 833853) < - 2"
proof -
  have m: "Float32 True 128 833853 \<in> set (concat test_vector_table)"
    by (simp add: all_values demo_test_input_3_bits)
  have lt: "float_value (Float32 True 128 833853) < - 2"
    by (simp add: float_value_def pow2_def)
  from values_within_bounds m lt show ?thesis by blast
qed

text \<open>
  C7. For every valid index \<open>i\<close> in \<open>[0, 5)\<close>, two successive invocations of the accessor at
  \<open>i\<close> return the same vector, the one \<open>get_test_vector i\<close> denotes. The data is immutable:
  every array of the header is const-qualified, so whatever operations a program runs in
  between, invocations at any index and assignments to any element of any array, the memory
  stays as the header initialised it and an invocation at \<open>i\<close> returns what the first one did.
\<close>

theorem reread_returns_identical_values:
  assumes "0 \<le> i" and "i < 5"
  shows "fst (run header_memory [Read i, Read i]) =
           [Returned (get_test_vector i), Returned (get_test_vector i)] \<and>
         (\<exists>v. get_test_vector i = Inr v) \<and>
         fst (step header_memory (Read i)) = Returned (get_test_vector i) \<and>
         fst (step (snd (run header_memory ops)) (Read i)) = fst (step header_memory (Read i)) \<and>
         snd (run header_memory ops) = header_memory"
proof -
  have r: "step header_memory (Read i) = (Returned (get_test_vector i), header_memory)"
    using assms by (rule read_header_memory)
  have twice: "fst (run header_memory [Read i, Read i]) =
      [Returned (get_test_vector i), Returned (get_test_vector i)]"
    by (simp only: run.simps r Let_def split_conv fst_conv)
  have ok: "\<exists>v. get_test_vector i = Inr v"
    using assms by (simp add: get_test_vector_def DEMO_N_TEST_VECTORS_def)
  have same: "snd (run header_memory ops) = header_memory"
    using header_memory_const by (rule run_keeps_const_memory)
  have first: "fst (step header_memory (Read i)) = Returned (get_test_vector i)"
    by (simp only: r fst_conv)
  have later: "fst (step (snd (run header_memory ops)) (Read i)) =
      fst (step header_memory (Read i))"
    by (simp only: same)
  from twice ok first later same show ?thesis
    by blast
qed

theorem reread_returns_identical_values_witness:
  "(0::int) \<le> 2 \<and> (2::int) < 5 \<and>
   fst (run header_memory [Read 2, Read 2]) =
     [Returned (Inr demo_test_input_2), Returned (Inr demo_test_input_2)] \<and>
   fst (step (snd (run header_memory
       [Read 0, Assign 2 0 (Float32 False 0 0), Read 7, Assign 2 9 (Float32 True 127 0),
        Assign 5 0 (Float32 False 0 0)])) (Read 2)) = Returned (Inr demo_test_input_2)"
proof -
  have lo: "(0::int) \<le> 2" and hi: "(2::int) < 5"
    by simp_all
  have g: "get_test_vector 2 = Inr demo_test_input_2"
    by (rule get_test_vector_cases(3))
  from reread_returns_identical_values [OF lo hi, of
      "[Read 0, Assign 2 0 (Float32 False 0 0), Read 7, Assign 2 9 (Float32 True 127 0),
        Assign 5 0 (Float32 False 0 0)]"]
  show ?thesis
    unfolding g using lo hi by metis
qed

text \<open>
  C8. The indices at which \<open>get_test_vector\<close> returns a vector are exactly 0, 1, 2, 3, 4,
  and index \<open>i\<close> returns the \<open>i\<close>-th array of the header in declaration order.
\<close>

theorem get_test_vector_declaration_order:
  "{i. \<exists>v. get_test_vector i = Inr v} = {0..4} \<and>
   get_test_vector 0 = Inr demo_test_input_0 \<and>
   get_test_vector 1 = Inr demo_test_input_1 \<and>
   get_test_vector 2 = Inr demo_test_input_2 \<and>
   get_test_vector 3 = Inr demo_test_input_3 \<and>
   get_test_vector 4 = Inr demo_test_input_4"
  by (simp add: successful_indices get_test_vector_cases)

text \<open>
  C9. Each of the 50 stored values is a well-formed binary32 datum that is neither a NaN
  nor an infinity nor a zero: it is finite and the number it stands for is not 0.
\<close>

theorem values_finite_nonzero:
  "length (concat test_vector_table) = 50 \<and>
   (\<forall>x \<in> set (concat test_vector_table).
      float32_wf x \<and> \<not> is_nan x \<and> \<not> is_infinite x \<and> \<not> is_zero x \<and>
      is_finite x \<and> float_value x \<noteq> 0)"
proof -
  let ?P = "\<lambda>x. float32_wf x \<and> \<not> is_nan x \<and> \<not> is_infinite x \<and> \<not> is_zero x \<and>
      is_finite x \<and> float_value x \<noteq> 0"
  have "\<forall>x \<in> set v. ?P x"
    if "v = demo_test_input_0 \<or> v = demo_test_input_1 \<or> v = demo_test_input_2 \<or>
        v = demo_test_input_3 \<or> v = demo_test_input_4" for v
    using that
    by (elim disjE)
      (simp_all add: demo_test_input_bits float32_wf_def is_nan_def is_infinite_def
        is_zero_def is_finite_def float_value_def pow2_def)
  then have "\<forall>x \<in> set (concat test_vector_table). ?P x"
    unfolding all_values set_append ball_Un by blast
  with value_count show ?thesis by blast
qed

theorem values_finite_nonzero_witness:
  "Float32 False 121 7043650 \<in> set (concat test_vector_table) \<and>
   \<not> is_nan (Float32 False 121 7043650) \<and> \<not> is_infinite (Float32 False 121 7043650) \<and>
   \<not> is_zero (Float32 False 121 7043650) \<and> float_value (Float32 False 121 7043650) \<noteq> 0"
proof -
  have m: "Float32 False 121 7043650 \<in> set (concat test_vector_table)"
    by (simp add: all_values demo_test_input_0_bits)
  from values_finite_nonzero m show ?thesis by blast
qed

text \<open>
  C10. The five arrays are pairwise distinct: for distinct indices \<open>i\<close>, \<open>j\<close> below 5 the
  first elements of the \<open>i\<close>-th and the \<open>j\<close>-th array already compare unequal, so the
  arrays differ at one of their ten positions and are different arrays.
\<close>

theorem vectors_pairwise_distinct:
  assumes "i < 5" and "j < 5" and "i \<noteq> j"
  shows "\<not> float_eq (test_vector_table ! i ! 0) (test_vector_table ! j ! 0) \<and>
         (\<exists>k<10. \<not> float_eq (test_vector_table ! i ! k) (test_vector_table ! j ! k)) \<and>
         test_vector_table ! i \<noteq> test_vector_table ! j"
proof -
  have i: "i = 0 \<or> i = 1 \<or> i = 2 \<or> i = 3 \<or> i = 4"
    using assms(1) by arith
  have j: "j = 0 \<or> j = 1 \<or> j = 2 \<or> j = 3 \<or> j = 4"
    using assms(2) by arith
  have first: "\<not> float_eq (test_vector_table ! i ! 0) (test_vector_table ! j ! 0)"
    using i j assms(3)
    by (elim disjE) (simp_all add: first_elements float_eq_def is_nan_def is_zero_def)
  have "test_vector_table ! i ! 0 \<noteq> test_vector_table ! j ! 0"
    using i j assms(3)
    by (elim disjE) (simp_all add: first_elements)
  then have differ: "test_vector_table ! i \<noteq> test_vector_table ! j"
    by auto
  have "\<exists>k<10. \<not> float_eq (test_vector_table ! i ! k) (test_vector_table ! j ! k)"
    using first by (intro exI [of _ 0]) simp
  with first differ show ?thesis by blast
qed

theorem vectors_pairwise_distinct_witness:
  "(0::nat) < 5 \<and> (1::nat) < 5 \<and> (0::nat) \<noteq> 1 \<and>
   \<not> float_eq (demo_test_input_0 ! 0) (demo_test_input_1 ! 0) \<and>
   demo_test_input_0 \<noteq> demo_test_input_1"
  using vectors_pairwise_distinct [of 0 1]
  by (simp add: test_vector_table_def)

end
